theory Spec2Isabelle
  imports Complex_Main "HOL-Library.Word"
begin

section \<open>The Gutenberg downloader (src/ingestion/gutenberg\_downloader.py)\<close>

text \<open>
  A shallow embedding of the acquisition pipeline: the curated catalog and its genre
  classifier, \<open>download_book\<close> (skip check, retry loop, backoff) and
  \<open>download_curated_corpus\<close> (selection, iteration, outcome records, summary).

  The program talks to a file system, to a remote server and to the clock. All three
  are explicit here: the files are a map from path to content, every network request,
  sleep and write is appended to a trace, the server is a function that answers the
  \<open>n\<close>-th request of the run for a given book id (so that a server whose answers change
  from one attempt to the next is covered), and the disk is a function that tells how the
  \<open>n\<close>-th \<open>write_bytes\<close> of the run ends. Console output is left out.
\<close>

subsection \<open>Catalog\<close>

definition CURATED_BOOKS :: "(string \<times> int) list" where
  "CURATED_BOOKS =
    [(''hugo_miserables_t1'', 17489),
     (''hugo_miserables_t2'', 17493),
     (''hugo_notre_dame'', 2610),
     (''flaubert_bovary'', 14155),
     (''flaubert_education'', 14156),
     (''stendhal_rouge_noir'', 798),
     (''zola_germinal'', 5711),
     (''zola_assommoir'', 8600),
     (''zola_nana'', 5765),
     (''zola_bete_humaine'', 14553),
     (''balzac_pere_goriot'', 5090),
     (''balzac_illusions'', 13159),
     (''dumas_monte_cristo_t1'', 17989),
     (''dumas_monte_cristo_t2'', 17990),
     (''dumas_trois_mousquetaires'', 13951),
     (''maupassant_bel_ami'', 3790),
     (''maupassant_contes'', 3090),
     (''proust_swann'', 7178),
     (''voltaire_candide'', 4650),
     (''leroux_fantome_opera'', 175),
     (''leroux_chambre_jaune'', 13071),
     (''leroux_parfum_dame'', 13072),
     (''leblanc_arsene_lupin'', 6133),
     (''leblanc_aiguille'', 12389),
     (''leblanc_813'', 28371),
     (''verne_20000_lieues'', 5097),
     (''verne_tour_monde'', 800),
     (''verne_voyage_centre'', 4791),
     (''verne_ile_mysterieuse'', 9080),
     (''verne_5_semaines'', 4548),
     (''verne_terre_lune'', 799),
     (''maupassant_horla'', 14063)]"

definition GENRES :: "(string \<times> string) list" where
  "GENRES =
    [(''hugo'', ''litterature_generale''),
     (''flaubert'', ''litterature_generale''),
     (''stendhal'', ''litterature_generale''),
     (''zola'', ''litterature_generale''),
     (''balzac'', ''litterature_generale''),
     (''dumas'', ''litterature_generale''),
     (''maupassant_bel'', ''litterature_generale''),
     (''maupassant_contes'', ''litterature_generale''),
     (''proust'', ''litterature_generale''),
     (''voltaire'', ''litterature_generale''),
     (''leroux'', ''thriller_policier''),
     (''leblanc'', ''thriller_policier''),
     (''verne'', ''fantasy_sf''),
     (''maupassant_horla'', ''fantasy_sf'')]"

text \<open>\<open>str.startswith\<close>: the second argument is the prefix looked for.\<close>

fun startswith :: "string \<Rightarrow> string \<Rightarrow> bool" where
  "startswith s [] = True"
| "startswith [] (p # ps) = False"
| "startswith (c # cs) (p # ps) = (c = p \<and> startswith cs ps)"

text \<open>
  The loop of \<open>get_genre\<close> over the items of a prefix table, in the table's order:
  the first prefix that matches decides, and the fallback is the general genre.
\<close>

fun first_genre :: "(string \<times> string) list \<Rightarrow> string \<Rightarrow> string" where
  "first_genre [] book_key = ''litterature_generale''"
| "first_genre ((pre, g) # rest) book_key =
     (if startswith book_key pre then g else first_genre rest book_key)"

definition get_genre :: "string \<Rightarrow> string" where
  "get_genre book_key = first_genre GENRES book_key"

subsection \<open>Outcome records\<close>

record BookMetadata =
  book_id :: int
  key :: string
  genre :: string
  file_path :: string
  file_size :: int
  download_success :: bool
  error :: "string option"

subsection \<open>The world: files, server, disk, trace\<close>

type_synonym bytes = "8 word list"

text \<open>
  What one \<open>urlopen\<close> \<open>read\<close> pair can do: return a body, raise \<open>HTTPError\<close> with a
  status code, raise \<open>URLError\<close>, raise \<open>TimeoutError\<close>, or raise anything else
  (\<open>OtherError\<close>), which no \<open>except\<close> clause of \<open>download_book\<close> catches.
\<close>

datatype response = Body bytes | HTTPError int | URLError | TimeoutError | OtherError

text \<open>
  How one \<open>write_bytes\<close> can end. The method opens the file for writing, which
  truncates it, and then writes the content: \<open>Stored\<close> when both succeed, \<open>Refused\<close>
  when the open raises (a missing directory, no permission) and the files stay as they
  were, \<open>Cut m\<close> when the write raises after the open (a full disk) and the file is left
  with the first \<open>m\<close> bytes of the content. No \<open>except\<close> clause of \<open>download_book\<close>
  catches the \<open>OSError\<close> of the last two.
\<close>

datatype written = Stored | Refused | Cut nat

text \<open>
  An exception that leaves \<open>download_book\<close> or \<open>download_curated_corpus\<close>:
  \<open>Uncaught\<close> for an \<open>OtherError\<close> of the transport, \<open>WriteFailed\<close> for an
  \<open>OSError\<close> of \<open>write_bytes\<close>, \<open>FileNotFound\<close> for a \<open>stat\<close> of a path that has
  no file.
\<close>

datatype fault = Uncaught | WriteFailed | FileNotFound

text \<open>
  The observable effects, in the order they happen: a network request for a book id
  (the URL is a function of the id), the \<open>time.sleep(wait)\<close> of the retry loop, the
  call of \<open>write_bytes\<close> for a body (however it ends), the \<open>time.sleep(delay)\<close>
  between two items, and the dump of the metadata file.
\<close>

datatype event =
    NetRequest int
  | BackoffSleep int
  | WriteBytes string
  | DelaySleep real
  | WriteMetadata string

record world =
  files :: "string \<rightharpoonup> bytes"
  trace :: "event list"

type_synonym server = "nat \<Rightarrow> int \<Rightarrow> response"

type_synonym disk = "nat \<Rightarrow> written"

fun is_request :: "event \<Rightarrow> bool" where
  "is_request (NetRequest b) = True"
| "is_request e = False"

definition requests :: "event list \<Rightarrow> nat" where
  "requests tr = length (filter is_request tr)"

fun is_write :: "event \<Rightarrow> bool" where
  "is_write (WriteBytes p) = True"
| "is_write e = False"

definition writes :: "event list \<Rightarrow> nat" where
  "writes tr = length (filter is_write tr)"

subsection \<open>Paths\<close>

text \<open>
  \<open>pathlib\<close> on a POSIX system. A path written as a string is read as an anchor and
  a list of parts: the anchor is \<open>/\<close> for a leading separator (\<open>//\<close> for exactly two),
  the parts are what stands between the separators, without the empty ones and the
  single dots. \<open>child dir name\<close> is \<open>str(Path(dir) / name)\<close> for a name of one part:
  the anchor, then the parts and the name joined by separators. So \<open>d/\<close>, \<open>./d\<close> and
  \<open>d\<close> name the same directory, and a file of the directory \<open>.\<close> or of the empty string
  is written without a directory.
\<close>

fun components :: "string \<Rightarrow> string \<Rightarrow> string list" where
  "components cur [] = [cur]"
| "components cur (c # cs) =
     (if c = CHR ''/'' then cur # components [] cs else components (cur @ [c]) cs)"

definition path_parts :: "string \<Rightarrow> string list" where
  "path_parts s = filter (\<lambda>p. p \<noteq> [] \<and> p \<noteq> ''.'') (components [] s)"

definition anchor :: "string \<Rightarrow> string" where
  "anchor s =
     (if take 3 s = ''///'' then ''/''
      else if take 2 s = ''//'' then ''//''
      else if take 1 s = ''/'' then ''/''
      else [])"

fun join_parts :: "string list \<Rightarrow> string" where
  "join_parts [] = []"
| "join_parts [p] = p"
| "join_parts (p # q # ps) = p @ ''/'' @ join_parts (q # ps)"

definition child :: "string \<Rightarrow> string \<Rightarrow> string" where
  "child dir name = anchor dir @ join_parts (path_parts dir @ [name])"

text \<open>\<open>str(book_id)\<close> in decimal, and the path \<open>output_dir / f"pg{book_id}.txt"\<close>.\<close>

fun str_nat :: "nat \<Rightarrow> string" where
  "str_nat n =
     (if n < 10 then [''0123456789'' ! n]
      else str_nat (n div 10) @ [''0123456789'' ! (n mod 10)])"

declare str_nat.simps [simp del]

definition str_int :: "int \<Rightarrow> string" where
  "str_int i = (if i < 0 then CHR ''-'' # str_nat (nat (- i)) else str_nat (nat i))"

definition book_file :: "string \<Rightarrow> int \<Rightarrow> string" where
  "book_file output_dir bid = child output_dir (''pg'' @ str_int bid @ ''.txt'')"

subsection \<open>download\_book\<close>

text \<open>
  The skip test: \<open>output_path.exists() and output_path.stat().st_size > 1000\<close>.
\<close>

definition already_exists :: "world \<Rightarrow> string \<Rightarrow> bool" where
  "already_exists w p = (case files w p of None \<Rightarrow> False | Some c \<Rightarrow> 1000 < length c)"

text \<open>
  The statements after the \<open>try\<close>: \<open>if attempt < retries: time.sleep(attempt * 2)\<close>.
\<close>

definition backoff :: "int \<Rightarrow> int \<Rightarrow> world \<Rightarrow> world" where
  "backoff attempt retries w =
     (if attempt < retries then w\<lparr>trace := trace w @ [BackoffSleep (attempt * 2)]\<rparr> else w)"

text \<open>
  The \<open>for attempt in range(1, retries + 1)\<close> loop, as a recursion over the attempt
  numbers still to run. A body under 500 bytes goes on to the next attempt at once
  (\<open>continue\<close>: the backoff is skipped); a body of at least 500 bytes goes to
  \<open>write_bytes\<close>, and the path is returned when the write succeeds; status 404 returns
  \<open>None\<close>; any other \<open>HTTPError\<close>, a \<open>URLError\<close> and a \<open>TimeoutError\<close> fall through to
  the backoff and the next attempt.
\<close>

fun attempts ::
  "server \<Rightarrow> disk \<Rightarrow> int \<Rightarrow> string \<Rightarrow> int \<Rightarrow> int list \<Rightarrow> world \<Rightarrow>
   (fault + string option) \<times> world"
where
  "attempts srv dsk bid output_path retries [] w = (Inr None, w)"
| "attempts srv dsk bid output_path retries (attempt # rest) w =
     (let w1 = w\<lparr>trace := trace w @ [NetRequest bid]\<rparr> in
      case srv (requests (trace w)) bid of
        Body content \<Rightarrow>
          if length content < 500 then attempts srv dsk bid output_path retries rest w1
          else
            (let w2 = w1\<lparr>trace := trace w1 @ [WriteBytes output_path]\<rparr> in
             case dsk (writes (trace w)) of
               Stored \<Rightarrow>
                 (Inr (Some output_path), w2\<lparr>files := (files w2)(output_path \<mapsto> content)\<rparr>)
             | Refused \<Rightarrow> (Inl WriteFailed, w2)
             | Cut m \<Rightarrow>
                 (Inl WriteFailed,
                  w2\<lparr>files := (files w2)(output_path \<mapsto> take m content)\<rparr>))
      | HTTPError code \<Rightarrow>
          if code = 404 then (Inr None, w1)
          else attempts srv dsk bid output_path retries rest (backoff attempt retries w1)
      | URLError \<Rightarrow> attempts srv dsk bid output_path retries rest (backoff attempt retries w1)
      | TimeoutError \<Rightarrow>
          attempts srv dsk bid output_path retries rest (backoff attempt retries w1)
      | OtherError \<Rightarrow> (Inl Uncaught, w1))"

definition download_book ::
  "server \<Rightarrow> disk \<Rightarrow> int \<Rightarrow> string \<Rightarrow> int \<Rightarrow> world \<Rightarrow> (fault + string option) \<times> world"
where
  "download_book srv dsk bid output_dir retries w =
     (let output_path = book_file output_dir bid in
      if already_exists w output_path then (Inr (Some output_path), w)
      else attempts srv dsk bid output_path retries [1..retries] w)"

subsection \<open>download\_curated\_corpus\<close>

text \<open>The slice \<open>xs[:n]\<close>; a negative \<open>n\<close> counts from the end.\<close>

definition slice_to :: "int \<Rightarrow> 'a list \<Rightarrow> 'a list" where
  "slice_to n xs = (if 0 \<le> n then take (nat n) xs else take (nat (int (length xs) + n)) xs)"

text \<open>
  The selection. \<open>if genres:\<close> and \<open>if max_books:\<close> test truthiness: \<open>None\<close>, the
  empty list and \<open>0\<close> all skip their step.
\<close>

definition books_to_download :: "string list option \<Rightarrow> int option \<Rightarrow> (string \<times> int) list" where
  "books_to_download genres max_books =
     (let books = CURATED_BOOKS;
          books = (case genres of
                     None \<Rightarrow> books
                   | Some gs \<Rightarrow>
                       if gs = [] then books
                       else filter (\<lambda>(k, b). get_genre k \<in> set gs) books);
          books = (case max_books of
                     None \<Rightarrow> books
                   | Some n \<Rightarrow> if n = 0 then books else slice_to n books)
      in books)"

text \<open>
  The \<open>BookMetadata(...)\<close> call of the loop body. \<open>file_path or ""\<close>,
  \<open>... if file_path else ...\<close> test truthiness (the empty string counts as absent),
  \<open>download_success\<close> tests \<open>is not None\<close>; \<open>stat\<close> raises where there is no file.
\<close>

definition make_metadata ::
  "int \<Rightarrow> string \<Rightarrow> string \<Rightarrow> string option \<Rightarrow> world \<Rightarrow> fault + BookMetadata"
where
  "make_metadata bid k g fp w =
     (case fp of
        None \<Rightarrow>
          Inr \<lparr>book_id = bid, key = k, genre = g, file_path = [], file_size = 0,
               download_success = False, error = Some ''Download failed''\<rparr>
      | Some p \<Rightarrow>
          if p = [] then
            Inr \<lparr>book_id = bid, key = k, genre = g, file_path = [], file_size = 0,
                 download_success = True, error = Some ''Download failed''\<rparr>
          else
            (case files w p of
               None \<Rightarrow> Inl FileNotFound
             | Some c \<Rightarrow>
                 Inr \<lparr>book_id = bid, key = k, genre = g, file_path = p,
                      file_size = int (length c), download_success = True, error = None\<rparr>))"

text \<open>
  The loop \<open>for i, (key, book_id) in enumerate(books_to_download, 1)\<close>; \<open>results\<close> is
  the list built so far. \<open>download_book\<close> runs with its default of 3 retries. The
  \<open>delay\<close> is a Python float, taken here as a real number.
\<close>

fun corpus_loop ::
  "server \<Rightarrow> disk \<Rightarrow> string \<Rightarrow> real \<Rightarrow> int \<Rightarrow> (int \<times> string \<times> int) list \<Rightarrow>
   BookMetadata list \<Rightarrow> world \<Rightarrow> (fault + BookMetadata list) \<times> world"
where
  "corpus_loop srv dsk output_dir delay n_total [] results w = (Inr results, w)"
| "corpus_loop srv dsk output_dir delay n_total ((i, k, bid) # rest) results w =
     (case download_book srv dsk bid output_dir 3 w of
        (Inl f, w1) \<Rightarrow> (Inl f, w1)
      | (Inr fp, w1) \<Rightarrow>
          (case make_metadata bid k (get_genre k) fp w1 of
             Inl f \<Rightarrow> (Inl f, w1)
           | Inr metadata \<Rightarrow>
               corpus_loop srv dsk output_dir delay n_total rest (results @ [metadata])
                 (if i < n_total \<and> 0 < delay
                  then w1\<lparr>trace := trace w1 @ [DelaySleep delay]\<rparr> else w1)))"

text \<open>
  The whole run. The creation of the output directory and the writing of the metadata
  file are taken to succeed; the JSON text is not modelled, and the dump is recorded as
  an event of the trace.
\<close>

definition download_curated_corpus ::
  "server \<Rightarrow> disk \<Rightarrow> string \<Rightarrow> int option \<Rightarrow> string list option \<Rightarrow> real \<Rightarrow> world \<Rightarrow>
   (fault + BookMetadata list) \<times> world"
where
  "download_curated_corpus srv dsk output_dir max_books genres delay w =
     (let books = books_to_download genres max_books;
          n_total = int (length books)
      in case corpus_loop srv dsk output_dir delay n_total (zip [1..n_total] books) [] w of
           (Inl f, w1) \<Rightarrow> (Inl f, w1)
         | (Inr results, w1) \<Rightarrow>
             (Inr results,
              w1\<lparr>trace := trace w1 @ [WriteMetadata (child output_dir ''metadata.json'')]\<rparr>))"

text \<open>The two figures of the summary: \<open>success\<close> and \<open>total_size\<close>.\<close>

definition success :: "BookMetadata list \<Rightarrow> int" where
  "success results = sum_list (map (\<lambda>r. 1) (filter download_success results))"

definition total_size :: "BookMetadata list \<Rightarrow> int" where
  "total_size results = sum_list (map file_size results)"

subsection \<open>Notions used in the statements\<close>

text \<open>
  The two shapes of an outcome record: a success has a path and no error text, a failure
  has the empty path, size 0 and the error text \<open>Download failed\<close>.
\<close>

abbreviation recorded :: "BookMetadata \<Rightarrow> bool" where
  "recorded r \<equiv>
     (download_success r \<and> error r = None \<and> file_path r \<noteq> []) \<or>
     (\<not> download_success r \<and> error r = Some ''Download failed'' \<and> file_path r = [] \<and>
        file_size r = 0)"

text \<open>
  The wait before each request of a trace: the backoff sleeps since the request before
  it (0 before the first request, and 0 where no sleep lies between two requests). The
  \<open>k\<close>-th entry, counted from 1, is the wait before attempt \<open>k\<close> when the trace is
  that of one \<open>download_book\<close> call.
\<close>

fun waits_from :: "int \<Rightarrow> event list \<Rightarrow> int list" where
  "waits_from slept [] = []"
| "waits_from slept (NetRequest b # es) = slept # waits_from 0 es"
| "waits_from slept (BackoffSleep s # es) = waits_from (slept + s) es"
| "waits_from slept (e # es) = waits_from slept es"

definition waits :: "event list \<Rightarrow> int list" where
  "waits es = waits_from 0 es"

fun is_body :: "response \<Rightarrow> bool" where
  "is_body (Body c) = True"
| "is_body x = False"

section \<open>Properties\<close>

subsection \<open>Requests, files and the retry loop\<close>

lemma requests_Nil [simp]: "requests [] = 0"
  by (simp add: requests_def)

lemma requests_append [simp]: "requests (xs @ ys) = requests xs + requests ys"
  by (simp add: requests_def)

lemma requests_Cons [simp]: "requests (e # es) = (if is_request e then 1 else 0) + requests es"
  by (simp add: requests_def)

lemma requests_replicate [simp]: "requests (replicate n (NetRequest b)) = n"
  by (induction n) simp_all

lemma writes_Nil [simp]: "writes [] = 0"
  by (simp add: writes_def)

lemma writes_append [simp]: "writes (xs @ ys) = writes xs + writes ys"
  by (simp add: writes_def)

lemma writes_Cons [simp]: "writes (e # es) = (if is_write e then 1 else 0) + writes es"
  by (simp add: writes_def)

lemma files_backoff [simp]: "files (backoff a r w) = files w"
  by (simp add: backoff_def)

lemma requests_backoff [simp]: "requests (trace (backoff a r w)) = requests (trace w)"
  by (simp add: backoff_def)

lemma writes_backoff [simp]: "writes (trace (backoff a r w)) = writes (trace w)"
  by (simp add: backoff_def)

lemma join_parts_nonempty: "name \<noteq> [] \<Longrightarrow> join_parts (ps @ [name]) \<noteq> []"
  by (induction ps rule: join_parts.induct) simp_all

lemma book_file_nonempty [simp]: "book_file d b \<noteq> []"
  by (simp add: book_file_def child_def join_parts_nonempty)

text \<open>
  What a run of the retry loop can do to the files: nothing, unless an attempt got a
  body of at least 500 bytes; then the destination holds the whole body and the path is
  returned, or the write failed and the destination is as it was or holds a prefix.
\<close>

lemma attempts_files:
  "attempts srv dsk bid p retries as w = (r, w') \<Longrightarrow>
     (r = Inr (Some p) \<and>
        (\<exists>n c. srv n bid = Body c \<and> 500 \<le> length c \<and> files w' = (files w)(p \<mapsto> c)))
     \<or> (r = Inl WriteFailed \<and>
        (files w' = files w \<or>
         (\<exists>n c m. srv n bid = Body c \<and> 500 \<le> length c \<and>
            files w' = (files w)(p \<mapsto> take m c))))
     \<or> ((r = Inr None \<or> r = Inl Uncaught) \<and> files w' = files w)"
proof (induction as arbitrary: w)
  case Nil
  then show ?case by auto
next
  case (Cons a as)
  let ?w1 = "w\<lparr>trace := trace w @ [NetRequest bid]\<rparr>"
  show ?case
  proof (cases "srv (requests (trace w)) bid")
    case (Body c)
    show ?thesis
    proof (cases "length c < 500")
      case True
      with Body Cons.prems have "attempts srv dsk bid p retries as ?w1 = (r, w')" by simp
      from Cons.IH [OF this] show ?thesis by simp
    next
      case False
      then have big: "500 \<le> length c" by simp
      show ?thesis
      proof (cases "dsk (writes (trace w))")
        case Stored
        with Body False Cons.prems
        have "r = Inr (Some p)" and "files w' = (files w)(p \<mapsto> c)"
          by auto
        with Body big show ?thesis by blast
      next
        case Refused
        with Body False Cons.prems
        have "r = Inl WriteFailed" and "files w' = files w"
          by auto
        then show ?thesis by blast
      next
        case (Cut m)
        with Body False Cons.prems
        have "r = Inl WriteFailed" and "files w' = (files w)(p \<mapsto> take m c)"
          by auto
        with Body big show ?thesis by blast
      qed
    qed
  next
    case (HTTPError code)
    show ?thesis
    proof (cases "code = 404")
      case True
      with HTTPError Cons.prems show ?thesis by auto
    next
      case False
      with HTTPError Cons.prems
      have "attempts srv dsk bid p retries as (backoff a retries ?w1) = (r, w')" by simp
      from Cons.IH [OF this] show ?thesis by simp
    qed
  next
    case URLError
    with Cons.prems
    have "attempts srv dsk bid p retries as (backoff a retries ?w1) = (r, w')" by simp
    from Cons.IH [OF this] show ?thesis by simp
  next
    case TimeoutError
    with Cons.prems
    have "attempts srv dsk bid p retries as (backoff a retries ?w1) = (r, w')" by simp
    from Cons.IH [OF this] show ?thesis by simp
  next
    case OtherError
    with Cons.prems show ?thesis by auto
  qed
qed


lemma attempts_no_fault:
  "\<forall>n. srv n bid \<noteq> OtherError \<Longrightarrow> \<forall>n. dsk n = Stored \<Longrightarrow>
   \<exists>fp w'. attempts srv dsk bid p retries as w = (Inr fp, w')"
proof (induction as arbitrary: w)
  case Nil
  then show ?case by simp
next
  case (Cons a as)
  then show ?case
    by (cases "srv (requests (trace w)) bid") (auto simp: Let_def)
qed

lemma attempts_small:
  "\<forall>n. \<exists>c. srv n bid = Body c \<and> length c < 500 \<Longrightarrow>
   attempts srv dsk bid p retries as w =
     (Inr None, w\<lparr>trace := trace w @ replicate (length as) (NetRequest bid)\<rparr>)"
proof (induction as arbitrary: w)
  case Nil
  then show ?case by simp
next
  case (Cons a as)
  from Cons.prems obtain c where c: "srv (requests (trace w)) bid = Body c" "length c < 500"
    by blast
  have "attempts srv dsk bid p retries (a # as) w =
        attempts srv dsk bid p retries as (w\<lparr>trace := trace w @ [NetRequest bid]\<rparr>)"
    using c by simp
  also have "\<dots> = (Inr None, w\<lparr>trace := trace w @ replicate (length (a # as)) (NetRequest bid)\<rparr>)"
    using Cons.IH [OF Cons.prems] by (simp add: replicate_app_Cons_same)
  finally show ?case .
qed

lemma download_book_skip:
  "already_exists w (book_file dir bid) \<Longrightarrow>
   download_book srv dsk bid dir retries w = (Inr (Some (book_file dir bid)), w)"
  by (simp add: download_book_def)

lemma download_book_files:
  assumes "download_book srv dsk bid dir retries w = (r, w')"
  shows "(r = Inr (Some (book_file dir bid)) \<and>
            (already_exists w (book_file dir bid) \<and> w' = w
             \<or> (\<exists>n c. srv n bid = Body c \<and> 500 \<le> length c \<and>
                   files w' = (files w)(book_file dir bid \<mapsto> c))))
         \<or> (r = Inl WriteFailed \<and>
            (files w' = files w \<or>
             (\<exists>n c m. srv n bid = Body c \<and> 500 \<le> length c \<and>
                files w' = (files w)(book_file dir bid \<mapsto> take m c))))
         \<or> ((r = Inr None \<or> r = Inl Uncaught) \<and> files w' = files w)"
proof (cases "already_exists w (book_file dir bid)")
  case True
  with assms show ?thesis by (auto simp: download_book_def)
next
  case False
  with assms have "attempts srv dsk bid (book_file dir bid) retries [1..retries] w = (r, w')"
    by (simp add: download_book_def)
  from attempts_files [OF this] show ?thesis by blast
qed


lemma download_book_path:
  "download_book srv dsk bid dir retries w = (Inr (Some p), w') \<Longrightarrow> p = book_file dir bid"
  using download_book_files [of srv dsk bid dir retries w "Inr (Some p)" w'] by auto

subsection \<open>The fetcher\<close>

text \<open>
  C3 (as amended). When the destination file exists with more than 1000 bytes,
  \<open>download_book\<close> returns that path and leaves the world as it was: no request, no
  sleep, no write. Hence a second run after a successful one, whose file holds more than
  1000 bytes, returns the same path without touching the network, whatever the server
  would answer.
\<close>

theorem skip_existing_file:
  "(already_exists w (book_file dir bid) \<longrightarrow>
      download_book srv dsk bid dir retries w = (Inr (Some (book_file dir bid)), w)) \<and>
   (download_book srv dsk bid dir retries w = (Inr (Some p), w1) \<and> already_exists w1 p \<longrightarrow>
      download_book srv2 dsk2 bid dir retries2 w1 = (Inr (Some p), w1))"
  using download_book_skip download_book_path by blast

text \<open>
  At a concrete input: a file of 1001 bytes is skipped, and so is the file that a first
  download of 1001 bytes has stored.
\<close>

theorem skip_existing_file_witness:
  "download_book (\<lambda>n b. HTTPError 404) (\<lambda>n. Stored) 7 ''d'' 3
     \<lparr>files = [book_file ''d'' 7 \<mapsto> replicate 1001 0], trace = []\<rparr> =
   (Inr (Some (book_file ''d'' 7)),
    \<lparr>files = [book_file ''d'' 7 \<mapsto> replicate 1001 0], trace = []\<rparr>) \<and>
   download_book (\<lambda>n b. HTTPError 404) (\<lambda>n. Stored) 7 ''d'' 3
     \<lparr>files = [book_file ''d'' 7 \<mapsto> replicate 1001 0],
      trace = [NetRequest 7, WriteBytes (book_file ''d'' 7)]\<rparr> =
   (Inr (Some (book_file ''d'' 7)),
    \<lparr>files = [book_file ''d'' 7 \<mapsto> replicate 1001 0],
     trace = [NetRequest 7, WriteBytes (book_file ''d'' 7)]\<rparr>)"
proof -
  let ?p = "book_file ''d'' 7"
  let ?dsk = "\<lambda>n :: nat. Stored"
  let ?cached = "\<lparr>files = [?p \<mapsto> replicate 1001 (0 :: 8 word)], trace = []\<rparr>"
  let ?empty = "\<lparr>files = (Map.empty :: string \<rightharpoonup> bytes), trace = []\<rparr>"
  let ?after = "\<lparr>files = [?p \<mapsto> replicate 1001 (0 :: 8 word)],
              trace = [NetRequest 7, WriteBytes ?p]\<rparr>"
  have a: "already_exists ?cached ?p"
    by (simp add: already_exists_def)
  have b: "download_book (\<lambda>n b. Body (replicate 1001 0)) ?dsk 7 ''d'' 3 ?empty =
             (Inr (Some ?p), ?after)"
    by (simp add: download_book_def already_exists_def upto_rec1 Let_def)
  have c: "already_exists ?after ?p"
    by (simp add: already_exists_def)
  from a skip_existing_file [of ?cached "''d''" 7 "\<lambda>n b. HTTPError 404" ?dsk 3]
  have first: "download_book (\<lambda>n b. HTTPError 404) ?dsk 7 ''d'' 3 ?cached =
                 (Inr (Some ?p), ?cached)"
    by blast
  from b c skip_existing_file [of ?empty "''d''" 7 "\<lambda>n b. Body (replicate 1001 0)" ?dsk 3
      ?p ?after "\<lambda>n b. HTTPError 404" ?dsk 3]
  have second: "download_book (\<lambda>n b. HTTPError 404) ?dsk 7 ''d'' 3 ?after =
                  (Inr (Some ?p), ?after)"
    by blast
  from first second show ?thesis by (rule conjI)
qed

text \<open>
  The claim as stated fails between the two thresholds: a body of 700 bytes is accepted
  (at least 500) and stored, but the stored file does not pass the skip test (more than
  1000), so the second run asks the server again.
\<close>

theorem idempotency_counterexample:
  "fst (download_book (\<lambda>n b. Body (replicate 700 0)) (\<lambda>n. Stored) 7 ''d'' 3
         \<lparr>files = Map.empty, trace = []\<rparr>) = Inr (Some (book_file ''d'' 7)) \<and>
   requests (trace (snd (download_book (\<lambda>n b. Body (replicate 700 0)) (\<lambda>n. Stored) 7 ''d'' 3
         \<lparr>files = Map.empty, trace = []\<rparr>))) = 1 \<and>
   fst (download_book (\<lambda>n b. Body (replicate 700 0)) (\<lambda>n. Stored) 7 ''d'' 3
         (snd (download_book (\<lambda>n b. Body (replicate 700 0)) (\<lambda>n. Stored) 7 ''d'' 3
            \<lparr>files = Map.empty, trace = []\<rparr>))) = Inr (Some (book_file ''d'' 7)) \<and>
   requests (trace (snd (download_book (\<lambda>n b. Body (replicate 700 0)) (\<lambda>n. Stored) 7 ''d'' 3
         (snd (download_book (\<lambda>n b. Body (replicate 700 0)) (\<lambda>n. Stored) 7 ''d'' 3
            \<lparr>files = Map.empty, trace = []\<rparr>))))) = 2"
  by (simp add: download_book_def already_exists_def upto_rec1 Let_def)

text \<open>
  C4 (as amended). When the server answers the first request with status 404, no file of
  more than 1000 bytes is at the destination and at least one attempt is allowed,
  \<open>download_book\<close> makes exactly one request, sleeps and writes nothing, and returns
  \<open>None\<close>: the value it returns for every failure, since the code has no failure reason.
\<close>

theorem not_found_single_attempt:
  assumes "srv (requests (trace w)) bid = HTTPError 404"
      and "\<not> already_exists w (book_file dir bid)"
      and "1 \<le> retries"
  shows "download_book srv dsk bid dir retries w =
           (Inr None, w\<lparr>trace := trace w @ [NetRequest bid]\<rparr>)"
proof -
  from \<open>1 \<le> retries\<close> have "[1..retries] = 1 # [2..retries]"
    by (simp add: upto_rec1)
  with assms show ?thesis
    by (simp add: download_book_def)
qed

theorem not_found_single_attempt_witness:
  "download_book (\<lambda>n b. HTTPError 404) (\<lambda>n. Stored) 404 ''d'' 3
     \<lparr>files = Map.empty, trace = []\<rparr> =
     (Inr None, \<lparr>files = Map.empty, trace = [NetRequest 404]\<rparr>)"
  using not_found_single_attempt
    [of "\<lambda>n b. HTTPError 404" "\<lparr>files = Map.empty, trace = []\<rparr>" 404 "''d''" 3
        "\<lambda>n. Stored"]
  by (simp add: already_exists_def)

text \<open>
  The claim as stated fails in three ways. With a file of 1001 bytes at the destination,
  a book that the server does not have gets no request at all and its path is returned.
  With \<open>retries = 0\<close> no request is made either. And the value returned for a book
  that is not found is the value returned when the retries are exhausted: \<open>None\<close>, with
  no reason.
\<close>

theorem not_found_counterexample:
  "download_book (\<lambda>n b. HTTPError 404) (\<lambda>n. Stored) 404 ''d'' 3
     \<lparr>files = [book_file ''d'' 404 \<mapsto> replicate 1001 0], trace = []\<rparr> =
     (Inr (Some (book_file ''d'' 404)),
      \<lparr>files = [book_file ''d'' 404 \<mapsto> replicate 1001 0], trace = []\<rparr>) \<and>
   download_book (\<lambda>n b. HTTPError 404) (\<lambda>n. Stored) 404 ''d'' 0
     \<lparr>files = Map.empty, trace = []\<rparr> =
     (Inr None, \<lparr>files = Map.empty, trace = []\<rparr>) \<and>
   fst (download_book (\<lambda>n b. HTTPError 404) (\<lambda>n. Stored) 404 ''d'' 3
     \<lparr>files = Map.empty, trace = []\<rparr>) = Inr None \<and>
   fst (download_book (\<lambda>n b. Body (replicate 50 0)) (\<lambda>n. Stored) 404 ''d'' 3
     \<lparr>files = Map.empty, trace = []\<rparr>) = Inr None"
  by (simp add: download_book_def already_exists_def upto_rec1 Let_def)

text \<open>
  C6 (as amended). When every answer is a body under 500 bytes and no file of more than
  1000 bytes is at the destination, \<open>download_book\<close> makes \<open>retries\<close> requests (none when
  \<open>retries\<close> is negative), with no sleep between them, writes nothing and returns
  \<open>None\<close>: the value it returns for every failure.
\<close>

theorem undersized_exhausts_retries:
  assumes "\<forall>n. \<exists>c. srv n bid = Body c \<and> length c < 500"
      and "\<not> already_exists w (book_file dir bid)"
  shows "download_book srv dsk bid dir retries w =
           (Inr None, w\<lparr>trace := trace w @ replicate (nat retries) (NetRequest bid)\<rparr>)"
  using assms attempts_small [of srv bid dsk "book_file dir bid" retries "[1..retries]" w]
  by (simp add: download_book_def)

theorem undersized_exhausts_retries_witness:
  "download_book (\<lambda>n b. Body (replicate 50 0)) (\<lambda>n. Stored) 200 ''d'' 3
     \<lparr>files = Map.empty, trace = []\<rparr> =
     (Inr None,
      \<lparr>files = Map.empty, trace = [NetRequest 200, NetRequest 200, NetRequest 200]\<rparr>)"
  using undersized_exhausts_retries
    [of "\<lambda>n b. Body (replicate 50 0)" 200 "\<lparr>files = Map.empty, trace = []\<rparr>" "''d''"
        "\<lambda>n. Stored" 3]
  by (simp add: already_exists_def numeral_3_eq_3)

text \<open>
  The claim as stated fails in three ways. With a file of 1001 bytes at the destination,
  a server that only sends 50 bytes is never asked: no attempt is made and the path is
  returned. With \<open>retries = -1\<close> the number of attempts is 0, not \<open>retries\<close>. And
  the value returned when the retries are exhausted is the value returned for a book that
  is not found.
\<close>

theorem undersized_counterexample:
  "download_book (\<lambda>n b. Body (replicate 50 0)) (\<lambda>n. Stored) 200 ''d'' 3
     \<lparr>files = [book_file ''d'' 200 \<mapsto> replicate 1001 0], trace = []\<rparr> =
     (Inr (Some (book_file ''d'' 200)),
      \<lparr>files = [book_file ''d'' 200 \<mapsto> replicate 1001 0], trace = []\<rparr>) \<and>
   download_book (\<lambda>n b. Body (replicate 50 0)) (\<lambda>n. Stored) 200 ''d'' (- 1)
     \<lparr>files = Map.empty, trace = []\<rparr> =
     (Inr None, \<lparr>files = Map.empty, trace = []\<rparr>) \<and>
   fst (download_book (\<lambda>n b. Body (replicate 50 0)) (\<lambda>n. Stored) 200 ''d'' 3
     \<lparr>files = Map.empty, trace = []\<rparr>) =
   fst (download_book (\<lambda>n b. HTTPError 404) (\<lambda>n. Stored) 200 ''d'' 3
     \<lparr>files = Map.empty, trace = []\<rparr>)"
  by (simp add: download_book_def already_exists_def upto_rec1 Let_def)




subsection \<open>The orchestrator\<close>

lemma download_book_stat:
  assumes "download_book srv dsk bid dir retries w = (Inr (Some p), w')"
  shows "p = book_file dir bid \<and> (\<exists>c. files w' p = Some c)"
proof -
  from download_book_files [OF assms]
  have "already_exists w (book_file dir bid) \<and> w' = w
        \<or> (\<exists>n c. files w' = (files w)(book_file dir bid \<mapsto> c))"
    by auto
  moreover have "p = book_file dir bid"
    using assms by (rule download_book_path)
  ultimately show ?thesis
    by (auto simp: already_exists_def split: option.splits)
qed

lemma download_book_no_fault:
  "\<forall>n. srv n bid \<noteq> OtherError \<Longrightarrow> \<forall>n. dsk n = Stored \<Longrightarrow>
   \<exists>fp w'. download_book srv dsk bid dir retries w = (Inr fp, w')"
  using attempts_no_fault [of srv bid dsk "book_file dir bid" retries "[1..retries]" w]
  by (auto simp: download_book_def Let_def)

lemma make_metadata_None:
  "make_metadata bid k g None w =
     Inr \<lparr>book_id = bid, key = k, genre = g, file_path = [], file_size = 0,
          download_success = False, error = Some ''Download failed''\<rparr>"
  by (simp add: make_metadata_def)

lemma make_metadata_Some:
  "p \<noteq> [] \<Longrightarrow> files w p = Some c \<Longrightarrow>
   make_metadata bid k g (Some p) w =
     Inr \<lparr>book_id = bid, key = k, genre = g, file_path = p, file_size = int (length c),
          download_success = True, error = None\<rparr>"
  by (simp add: make_metadata_def)

lemma corpus_loop_failed:
  assumes "download_book srv dsk bid dir 3 w = (Inr None, w1)"
  shows "corpus_loop srv dsk dir delay n ((i, k, bid) # rest) acc w =
         corpus_loop srv dsk dir delay n rest
           (acc @ [\<lparr>book_id = bid, key = k, genre = get_genre k, file_path = [], file_size = 0,
                    download_success = False, error = Some ''Download failed''\<rparr>])
           (if i < n \<and> 0 < delay then w1\<lparr>trace := trace w1 @ [DelaySleep delay]\<rparr> else w1)"
  using assms by (simp add: make_metadata_None)

lemma corpus_loop_succeeded:
  assumes "download_book srv dsk bid dir 3 w = (Inr (Some p), w1)"
  shows "\<exists>c. files w1 p = Some c \<and>
         corpus_loop srv dsk dir delay n ((i, k, bid) # rest) acc w =
         corpus_loop srv dsk dir delay n rest
           (acc @ [\<lparr>book_id = bid, key = k, genre = get_genre k, file_path = p,
                    file_size = int (length c), download_success = True, error = None\<rparr>])
           (if i < n \<and> 0 < delay then w1\<lparr>trace := trace w1 @ [DelaySleep delay]\<rparr> else w1)"
proof -
  from download_book_stat [OF assms] obtain c where p: "p \<noteq> []" and c: "files w1 p = Some c"
    by auto
  from assms make_metadata_Some [OF p c] c show ?thesis by simp
qed

lemma corpus_loop_results:
  "corpus_loop srv dsk dir delay n items acc w = (Inr rs, w') \<Longrightarrow>
   \<exists>new. rs = acc @ new \<and> map (\<lambda>r. (key r, book_id r)) new = map snd items \<and>
     (\<forall>r \<in> set new. recorded r)"
proof (induction items arbitrary: acc w)
  case Nil
  then show ?case by simp
next
  case (Cons item rest)
  obtain i k bid where item: "item = (i, k, bid)" by (cases item)
  obtain x w1 where db: "download_book srv dsk bid dir 3 w = (x, w1)"
    by (cases "download_book srv dsk bid dir 3 w")
  let ?w2 = "if i < n \<and> 0 < delay then w1\<lparr>trace := trace w1 @ [DelaySleep delay]\<rparr> else w1"
  from Cons.prems item db obtain fp where x: "x = Inr fp"
    by (cases x) auto
  show ?case
  proof (cases fp)
    case None
    let ?md = "\<lparr>book_id = bid, key = k, genre = get_genre k, file_path = [], file_size = 0,
                download_success = False, error = Some ''Download failed''\<rparr>"
    from db x None have "download_book srv dsk bid dir 3 w = (Inr None, w1)" by simp
    from corpus_loop_failed [OF this, of delay n i k rest acc] Cons.prems item
    have "corpus_loop srv dsk dir delay n rest (acc @ [?md]) ?w2 = (Inr rs, w')" by simp
    from Cons.IH [OF this] obtain new where
      "rs = (acc @ [?md]) @ new" "map (\<lambda>r. (key r, book_id r)) new = map snd rest"
      "\<forall>r \<in> set new. recorded r" by blast
    then have "rs = acc @ (?md # new) \<and>
        map (\<lambda>r. (key r, book_id r)) (?md # new) = map snd (item # rest) \<and>
        (\<forall>r \<in> set (?md # new). recorded r)"
      using item by simp
    then show ?thesis by blast
  next
    case (Some p)
    from db x Some have ok: "download_book srv dsk bid dir 3 w = (Inr (Some p), w1)" by simp
    from download_book_stat [OF ok] have p: "p \<noteq> []" by auto
    from corpus_loop_succeeded [OF ok, of delay n i k rest acc] obtain c :: bytes where
      step: "corpus_loop srv dsk dir delay n ((i, k, bid) # rest) acc w =
         corpus_loop srv dsk dir delay n rest
           (acc @ [\<lparr>book_id = bid, key = k, genre = get_genre k, file_path = p,
                    file_size = int (length c), download_success = True, error = None\<rparr>]) ?w2"
      by blast
    let ?md = "\<lparr>book_id = bid, key = k, genre = get_genre k, file_path = p,
                file_size = int (length c), download_success = True, error = None\<rparr>"
    from step Cons.prems item
    have "corpus_loop srv dsk dir delay n rest (acc @ [?md]) ?w2 = (Inr rs, w')" by simp
    from Cons.IH [OF this] obtain new where
      "rs = (acc @ [?md]) @ new" "map (\<lambda>r. (key r, book_id r)) new = map snd rest"
      "\<forall>r \<in> set new. recorded r" by blast
    then have "rs = acc @ (?md # new) \<and>
        map (\<lambda>r. (key r, book_id r)) (?md # new) = map snd (item # rest) \<and>
        (\<forall>r \<in> set (?md # new). recorded r)"
      using item p by simp
    then show ?thesis by blast
  qed
qed

lemma corpus_loop_no_fault:
  assumes "\<forall>n b. srv n b \<noteq> OtherError" and "\<forall>n. dsk n = Stored"
  shows "\<exists>rs w'. corpus_loop srv dsk dir delay n items acc w = (Inr rs, w')"
proof (induction items arbitrary: acc w)
  case Nil
  show ?case by simp
next
  case (Cons item rest)
  obtain i k bid where item: "item = (i, k, bid)" by (cases item)
  from assms(1) have "\<forall>n. srv n bid \<noteq> OtherError" by simp
  from download_book_no_fault [of srv bid dsk dir 3 w] this assms(2) obtain fp w1 where
    db: "download_book srv dsk bid dir 3 w = (Inr fp, w1)" by blast
  show ?case
  proof (cases fp)
    case None
    with db have "download_book srv dsk bid dir 3 w = (Inr None, w1)" by simp
    from corpus_loop_failed [OF this, of delay n i k rest acc] Cons.IH item
    show ?thesis by simp
  next
    case (Some p)
    with db have "download_book srv dsk bid dir 3 w = (Inr (Some p), w1)" by simp
    from corpus_loop_succeeded [OF this, of delay n i k rest acc] Cons.IH item
    show ?thesis by auto
  qed
qed

lemma enumerate_snd: "map snd (zip [1..int (length xs)] xs) = xs"
  by (simp add: map_snd_zip)

lemma corpus_results:
  assumes "download_curated_corpus srv dsk dir mb gs delay w = (Inr rs, w')"
  shows "map (\<lambda>r. (key r, book_id r)) rs = books_to_download gs mb \<and>
         (\<forall>r \<in> set rs. recorded r)"
proof -
  let ?books = "books_to_download gs mb"
  let ?n = "int (length ?books)"
  obtain x w1 where loop: "corpus_loop srv dsk dir delay ?n (zip [1..?n] ?books) [] w = (x, w1)"
    by (cases "corpus_loop srv dsk dir delay ?n (zip [1..?n] ?books) [] w")
  with assms have "x = Inr rs"
    by (cases x) (simp_all add: download_curated_corpus_def Let_def)
  with loop corpus_loop_results [of srv dsk dir delay ?n "zip [1..?n] ?books" "[]" w rs w1]
  show ?thesis by (simp add: enumerate_snd)
qed

lemma corpus_no_fault:
  assumes "\<forall>n b. srv n b \<noteq> OtherError" and "\<forall>n. dsk n = Stored"
  shows "\<exists>rs w'. download_curated_corpus srv dsk dir mb gs delay w = (Inr rs, w')"
proof -
  let ?books = "books_to_download gs mb"
  let ?n = "int (length ?books)"
  from corpus_loop_no_fault [OF assms, of dir delay ?n "zip [1..?n] ?books" "[]" w]
  show ?thesis by (auto simp: download_curated_corpus_def Let_def)
qed

text \<open>
  Runs evaluated in full, used below: one book and a server that always answers 404;
  one book and a server that always sends 50 bytes; two books and a server whose first
  answer is a body of 600 bytes and whose later answers are 404; two books and a
  transport that raises what \<open>download_book\<close> does not catch.
\<close>

lemma run_not_found:
  "download_curated_corpus (\<lambda>n b. HTTPError 404) (\<lambda>n. Stored) ''d'' (Some 1) None 1
     \<lparr>files = Map.empty, trace = []\<rparr> =
   (Inr [\<lparr>book_id = 17489, key = ''hugo_miserables_t1'', genre = ''litterature_generale'',
          file_path = [], file_size = 0, download_success = False,
          error = Some ''Download failed''\<rparr>],
    \<lparr>files = Map.empty, trace = [NetRequest 17489, WriteMetadata ''d/metadata.json'']\<rparr>)"
  by (simp add: download_curated_corpus_def books_to_download_def CURATED_BOOKS_def slice_to_def
      get_genre_def GENRES_def download_book_def already_exists_def make_metadata_def
      upto_rec1 Let_def child_def path_parts_def anchor_def)

lemma run_undersized:
  "download_curated_corpus (\<lambda>n b. Body (replicate 50 0)) (\<lambda>n. Stored) ''d'' (Some 1) None 1
     \<lparr>files = Map.empty, trace = []\<rparr> =
   (Inr [\<lparr>book_id = 17489, key = ''hugo_miserables_t1'', genre = ''litterature_generale'',
          file_path = [], file_size = 0, download_success = False,
          error = Some ''Download failed''\<rparr>],
    \<lparr>files = Map.empty,
      trace = [NetRequest 17489, NetRequest 17489, NetRequest 17489,
               WriteMetadata ''d/metadata.json'']\<rparr>)"
  by (simp add: download_curated_corpus_def books_to_download_def CURATED_BOOKS_def slice_to_def
      get_genre_def GENRES_def download_book_def already_exists_def make_metadata_def
      upto_rec1 Let_def child_def path_parts_def anchor_def)

lemma run_mixed:
  "download_curated_corpus (\<lambda>n b. if n = 0 then Body (replicate 600 0) else HTTPError 404)
     (\<lambda>n. Stored) ''d'' (Some 2) None 1 \<lparr>files = Map.empty, trace = []\<rparr> =
   (Inr [\<lparr>book_id = 17489, key = ''hugo_miserables_t1'', genre = ''litterature_generale'',
          file_path = ''d/pg17489.txt'', file_size = 600, download_success = True,
          error = None\<rparr>,
         \<lparr>book_id = 17493, key = ''hugo_miserables_t2'', genre = ''litterature_generale'',
          file_path = [], file_size = 0, download_success = False,
          error = Some ''Download failed''\<rparr>],
    \<lparr>files = [''d/pg17489.txt'' \<mapsto> replicate 600 0],
      trace = [NetRequest 17489, WriteBytes ''d/pg17489.txt'', DelaySleep 1, NetRequest 17493,
               WriteMetadata ''d/metadata.json'']\<rparr>)"
  by (simp add: download_curated_corpus_def books_to_download_def CURATED_BOOKS_def slice_to_def
      get_genre_def GENRES_def download_book_def already_exists_def make_metadata_def
      upto_rec1 Let_def book_file_def str_int_def str_nat.simps child_def path_parts_def
      anchor_def)





text \<open>
  C1 (as amended). For a non-empty genre list \<open>G\<close> and a count \<open>N\<close> of at least 1, the
  outcomes are those of the first \<open>N\<close> entries, in catalog order, of the catalog filtered
  by \<open>get_genre key \<in> G\<close>; \<open>take\<close> returns the whole filtered list when \<open>N\<close>
  exceeds its length. The run is one that no exception leaves \<open>download_book\<close>.
\<close>

theorem filter_then_truncate:
  assumes "\<forall>n b. srv n b \<noteq> OtherError" and "\<forall>n. dsk n = Stored"
      and "G \<noteq> []" and "0 < N"
  shows "\<exists>results w'.
           download_curated_corpus srv dsk dir (Some N) (Some G) delay w = (Inr results, w') \<and>
           map (\<lambda>r. (key r, book_id r)) results =
             take (nat N) (filter (\<lambda>(k, b). get_genre k \<in> set G) CURATED_BOOKS)"
proof -
  from corpus_no_fault [OF assms(1,2)] obtain results w' where
    run: "download_curated_corpus srv dsk dir (Some N) (Some G) delay w = (Inr results, w')"
    by blast
  from assms(3,4)
  have "books_to_download (Some G) (Some N) =
        take (nat N) (filter (\<lambda>(k, b). get_genre k \<in> set G) CURATED_BOOKS)"
    by (simp add: books_to_download_def slice_to_def)
  with corpus_results [OF run] run show ?thesis by simp
qed

theorem filter_then_truncate_witness:
  "\<exists>results w'.
     download_curated_corpus (\<lambda>n b. HTTPError 404) (\<lambda>n. Stored) ''data/raw'' (Some 1)
       (Some [''fantasy_sf'']) 1 \<lparr>files = Map.empty, trace = []\<rparr> = (Inr results, w') \<and>
     map (\<lambda>r. (key r, book_id r)) results = [(''verne_20000_lieues'', 5097)]"
proof -
  have sel: "take (nat 1) (filter (\<lambda>(k, b). get_genre k \<in> set [''fantasy_sf'']) CURATED_BOOKS) =
       [(''verne_20000_lieues'', 5097)]"
    by (simp add: CURATED_BOOKS_def get_genre_def GENRES_def)
  have a: "\<forall>(n :: nat) (b :: int). HTTPError 404 \<noteq> OtherError" by simp
  have b: "\<forall>n :: nat. Stored = Stored" by simp
  from filter_then_truncate [OF a b, of "[''fantasy_sf'']" 1 "''data/raw''" 1
      "\<lparr>files = Map.empty, trace = []\<rparr>"]
  show ?thesis unfolding sel by simp
qed

text \<open>
  The claim as stated, for every count, fails at \<open>N = 0\<close>: the first 0 entries of
  the filtered catalog are none, but \<open>if max_books:\<close> skips the truncation and all seven
  entries of the genre are processed.
\<close>

theorem max_zero_counterexample:
  "\<exists>results w'.
     download_curated_corpus (\<lambda>n b. HTTPError 404) (\<lambda>n. Stored) ''data/raw'' (Some 0)
       (Some [''fantasy_sf'']) 1 \<lparr>files = Map.empty, trace = []\<rparr> = (Inr results, w') \<and>
     map key results =
       [''verne_20000_lieues'', ''verne_tour_monde'', ''verne_voyage_centre'',
        ''verne_ile_mysterieuse'', ''verne_5_semaines'', ''verne_terre_lune'',
        ''maupassant_horla''] \<and>
     take (nat 0) (filter (\<lambda>(k, b). get_genre k \<in> set [''fantasy_sf'']) CURATED_BOOKS) = []"
proof -
  have sel: "books_to_download (Some [''fantasy_sf'']) (Some 0) =
       [(''verne_20000_lieues'', 5097), (''verne_tour_monde'', 800),
        (''verne_voyage_centre'', 4791), (''verne_ile_mysterieuse'', 9080),
        (''verne_5_semaines'', 4548), (''verne_terre_lune'', 799),
        (''maupassant_horla'', 14063)]"
    by (simp add: books_to_download_def CURATED_BOOKS_def get_genre_def GENRES_def)
  have a: "\<forall>(n :: nat) (b :: int). HTTPError 404 \<noteq> OtherError" by simp
  have b: "\<forall>n :: nat. Stored = Stored" by simp
  from corpus_no_fault [OF a b] obtain results w' where
    run: "download_curated_corpus (\<lambda>n b. HTTPError 404) (\<lambda>n. Stored) ''data/raw'' (Some 0)
       (Some [''fantasy_sf'']) 1 \<lparr>files = Map.empty, trace = []\<rparr> = (Inr results, w')"
    by blast
  from corpus_results [OF run]
  have "map (\<lambda>r. (key r, book_id r)) results = books_to_download (Some [''fantasy_sf'']) (Some 0)"
    by simp
  then have "map fst (map (\<lambda>r. (key r, book_id r)) results) =
             map fst (books_to_download (Some [''fantasy_sf'']) (Some 0))"
    by simp
  then have "map key results = map fst (books_to_download (Some [''fantasy_sf'']) (Some 0))"
    by (simp add: comp_def)
  with run show ?thesis unfolding sel by simp
qed

text \<open>
  C10. \<open>max_books = 0\<close> and \<open>genres = []\<close> behave as \<open>None\<close>. The run with one is the
  run with the other, on every world, server and disk. A run with \<open>max_books = 0\<close> that
  returns its list has processed every entry that passes the genre filter, not none; a
  run with \<open>genres = []\<close> that returns its list has processed the entries of the whole
  catalog, cut to \<open>max_books\<close> only. Both runs return their list whenever no
  exception leaves \<open>download_book\<close>. And the selection itself is the same with \<open>0\<close> as
  with \<open>None\<close>, and with \<open>[]\<close> as with \<open>None\<close>: both together select the whole
  catalog.
\<close>

theorem zero_and_empty_mean_no_limit:
  "download_curated_corpus srv dsk dir (Some 0) genres delay w =
     download_curated_corpus srv dsk dir None genres delay w \<and>
   download_curated_corpus srv dsk dir max_books (Some []) delay w =
     download_curated_corpus srv dsk dir max_books None delay w \<and>
   (download_curated_corpus srv dsk dir (Some 0) genres delay w = (Inr results, w') \<longrightarrow>
      map (\<lambda>r. (key r, book_id r)) results =
        (case genres of
           None \<Rightarrow> CURATED_BOOKS
         | Some gs \<Rightarrow>
             if gs = [] then CURATED_BOOKS
             else filter (\<lambda>(k, b). get_genre k \<in> set gs) CURATED_BOOKS)) \<and>
   (download_curated_corpus srv dsk dir max_books (Some []) delay w = (Inr results, w') \<longrightarrow>
      map (\<lambda>r. (key r, book_id r)) results =
        (case max_books of
           None \<Rightarrow> CURATED_BOOKS
         | Some n \<Rightarrow> if n = 0 then CURATED_BOOKS else slice_to n CURATED_BOOKS)) \<and>
   ((\<forall>n b. srv n b \<noteq> OtherError) \<and> (\<forall>n. dsk n = Stored) \<longrightarrow>
      (\<exists>rs w1. download_curated_corpus srv dsk dir (Some 0) genres delay w = (Inr rs, w1)) \<and>
      (\<exists>rs w1. download_curated_corpus srv dsk dir max_books (Some []) delay w = (Inr rs, w1))) \<and>
   books_to_download genres (Some 0) = books_to_download genres None \<and>
   books_to_download (Some []) max_books = books_to_download None max_books \<and>
   books_to_download (Some []) (Some 0) = CURATED_BOOKS"
proof (intro conjI impI)
  show "download_curated_corpus srv dsk dir (Some 0) genres delay w =
        download_curated_corpus srv dsk dir None genres delay w"
    by (simp add: download_curated_corpus_def books_to_download_def)
next
  show "download_curated_corpus srv dsk dir max_books (Some []) delay w =
        download_curated_corpus srv dsk dir max_books None delay w"
    by (simp add: download_curated_corpus_def books_to_download_def)
next
  assume "download_curated_corpus srv dsk dir (Some 0) genres delay w = (Inr results, w')"
  from corpus_results [OF this]
  have "map (\<lambda>r. (key r, book_id r)) results = books_to_download genres (Some 0)"
    by simp
  then show "map (\<lambda>r. (key r, book_id r)) results =
        (case genres of
           None \<Rightarrow> CURATED_BOOKS
         | Some gs \<Rightarrow>
             if gs = [] then CURATED_BOOKS
             else filter (\<lambda>(k, b). get_genre k \<in> set gs) CURATED_BOOKS)"
    by (simp add: books_to_download_def)
next
  assume "download_curated_corpus srv dsk dir max_books (Some []) delay w = (Inr results, w')"
  from corpus_results [OF this]
  have "map (\<lambda>r. (key r, book_id r)) results = books_to_download (Some []) max_books"
    by simp
  then show "map (\<lambda>r. (key r, book_id r)) results =
        (case max_books of
           None \<Rightarrow> CURATED_BOOKS
         | Some n \<Rightarrow> if n = 0 then CURATED_BOOKS else slice_to n CURATED_BOOKS)"
    by (simp add: books_to_download_def)
next
  assume "(\<forall>n b. srv n b \<noteq> OtherError) \<and> (\<forall>n. dsk n = Stored)"
  then have a: "\<forall>n b. srv n b \<noteq> OtherError" and b: "\<forall>n. dsk n = Stored" by simp_all
  from corpus_no_fault [OF a b]
  show "\<exists>rs w1. download_curated_corpus srv dsk dir (Some 0) genres delay w = (Inr rs, w1)" .
next
  assume "(\<forall>n b. srv n b \<noteq> OtherError) \<and> (\<forall>n. dsk n = Stored)"
  then have a: "\<forall>n b. srv n b \<noteq> OtherError" and b: "\<forall>n. dsk n = Stored" by simp_all
  from corpus_no_fault [OF a b]
  show "\<exists>rs w1. download_curated_corpus srv dsk dir max_books (Some []) delay w = (Inr rs, w1)" .
next
  show "books_to_download genres (Some 0) = books_to_download genres None"
    by (simp add: books_to_download_def)
next
  show "books_to_download (Some []) max_books = books_to_download None max_books"
    by (simp add: books_to_download_def)
next
  show "books_to_download (Some []) (Some 0) = CURATED_BOOKS"
    by (simp add: books_to_download_def)
qed

text \<open>
  At a concrete input, on a server that always answers 404: with \<open>max_books = 0\<close> and the
  thriller genre the run returns the outcomes of all six thrillers; with \<open>genres = []\<close>
  and \<open>max_books = 2\<close> it returns the outcomes of the first two books of the catalog,
  which are not thrillers.
\<close>

theorem zero_and_empty_mean_no_limit_witness:
  "(\<exists>results w'.
      download_curated_corpus (\<lambda>n b. HTTPError 404) (\<lambda>n. Stored) ''d'' (Some 0)
        (Some [''thriller_policier'']) 1 \<lparr>files = Map.empty, trace = []\<rparr> = (Inr results, w') \<and>
      map (\<lambda>r. (key r, book_id r)) results =
        [(''leroux_fantome_opera'', 175), (''leroux_chambre_jaune'', 13071),
         (''leroux_parfum_dame'', 13072), (''leblanc_arsene_lupin'', 6133),
         (''leblanc_aiguille'', 12389), (''leblanc_813'', 28371)]) \<and>
   (\<exists>results w'.
      download_curated_corpus (\<lambda>n b. HTTPError 404) (\<lambda>n. Stored) ''d'' (Some 2)
        (Some []) 1 \<lparr>files = Map.empty, trace = []\<rparr> = (Inr results, w') \<and>
      map (\<lambda>r. (key r, book_id r)) results =
        [(''hugo_miserables_t1'', 17489), (''hugo_miserables_t2'', 17493)])"
proof -
  let ?srv = "\<lambda>(n :: nat) (b :: int). HTTPError 404"
  let ?dsk = "\<lambda>n :: nat. Stored"
  let ?w = "\<lparr>files = (Map.empty :: string \<rightharpoonup> bytes), trace = []\<rparr>"
  have ok: "(\<forall>n b. ?srv n b \<noteq> OtherError) \<and> (\<forall>n. ?dsk n = Stored)" by simp
  have thrillers: "filter (\<lambda>(k, b). get_genre k \<in> set [''thriller_policier'']) CURATED_BOOKS =
        [(''leroux_fantome_opera'', 175), (''leroux_chambre_jaune'', 13071),
         (''leroux_parfum_dame'', 13072), (''leblanc_arsene_lupin'', 6133),
         (''leblanc_aiguille'', 12389), (''leblanc_813'', 28371)]"
    by (simp add: CURATED_BOOKS_def get_genre_def GENRES_def)
  have two: "slice_to 2 CURATED_BOOKS =
        [(''hugo_miserables_t1'', 17489), (''hugo_miserables_t2'', 17493)]"
    by (simp add: CURATED_BOOKS_def slice_to_def)
  from ok zero_and_empty_mean_no_limit [of ?srv ?dsk "''d''" "Some [''thriller_policier'']" 1 ?w]
  obtain rs w1 where
    run: "download_curated_corpus ?srv ?dsk ''d'' (Some 0) (Some [''thriller_policier'']) 1 ?w =
            (Inr rs, w1)"
    by blast
  from run zero_and_empty_mean_no_limit
    [of ?srv ?dsk "''d''" "Some [''thriller_policier'']" 1 ?w "Some 2" rs w1]
  have "map (\<lambda>r. (key r, book_id r)) rs =
          filter (\<lambda>(k, b). get_genre k \<in> set [''thriller_policier'']) CURATED_BOOKS"
    by simp
  with run thrillers have first: "\<exists>results w'.
      download_curated_corpus ?srv ?dsk ''d'' (Some 0) (Some [''thriller_policier'']) 1 ?w =
        (Inr results, w') \<and>
      map (\<lambda>r. (key r, book_id r)) results =
        [(''leroux_fantome_opera'', 175), (''leroux_chambre_jaune'', 13071),
         (''leroux_parfum_dame'', 13072), (''leblanc_arsene_lupin'', 6133),
         (''leblanc_aiguille'', 12389), (''leblanc_813'', 28371)]"
    by auto
  from ok zero_and_empty_mean_no_limit [of ?srv ?dsk "''d''" None 1 ?w "Some 2"]
  obtain rs2 w2 where
    run2: "download_curated_corpus ?srv ?dsk ''d'' (Some 2) (Some []) 1 ?w = (Inr rs2, w2)"
    by blast
  from run2 zero_and_empty_mean_no_limit [of ?srv ?dsk "''d''" None 1 ?w "Some 2" rs2 w2]
  have "map (\<lambda>r. (key r, book_id r)) rs2 = slice_to 2 CURATED_BOOKS"
    by simp
  with run2 two have second: "\<exists>results w'.
      download_curated_corpus ?srv ?dsk ''d'' (Some 2) (Some []) 1 ?w = (Inr results, w') \<and>
      map (\<lambda>r. (key r, book_id r)) results =
        [(''hugo_miserables_t1'', 17489), (''hugo_miserables_t2'', 17493)]"
    by auto
  from first second show ?thesis by (rule conjI)
qed

text \<open>
  C7 (as amended). A download that returns \<open>None\<close> does not stop the loop: the item gets
  a record with \<open>download_success = False\<close>, the empty path, size 0 and the fixed error
  text \<open>Download failed\<close>, and the loop goes on with the next item. A download that
  returns a path gets a record with the size of the stored file and no error. And unless
  an exception leaves \<open>download_book\<close>, the run returns its list, in which every record
  has one of these two shapes.
\<close>

theorem failures_become_records:
  assumes "\<forall>n b. srv n b \<noteq> OtherError" and "\<forall>n. dsk n = Stored"
  shows
    "(download_book srv dsk bid dir 3 w = (Inr None, w1) \<longrightarrow>
        corpus_loop srv dsk dir delay n ((i, k, bid) # rest) acc w =
        corpus_loop srv dsk dir delay n rest
          (acc @ [\<lparr>book_id = bid, key = k, genre = get_genre k, file_path = [], file_size = 0,
                   download_success = False, error = Some ''Download failed''\<rparr>])
          (if i < n \<and> 0 < delay then w1\<lparr>trace := trace w1 @ [DelaySleep delay]\<rparr> else w1)) \<and>
     (download_book srv dsk bid dir 3 w = (Inr (Some p), w1) \<longrightarrow>
        (\<exists>c. files w1 p = Some c \<and>
           corpus_loop srv dsk dir delay n ((i, k, bid) # rest) acc w =
           corpus_loop srv dsk dir delay n rest
             (acc @ [\<lparr>book_id = bid, key = k, genre = get_genre k, file_path = p,
                      file_size = int (length c), download_success = True, error = None\<rparr>])
             (if i < n \<and> 0 < delay then w1\<lparr>trace := trace w1 @ [DelaySleep delay]\<rparr> else w1))) \<and>
     (\<exists>results w'.
        download_curated_corpus srv dsk dir max_books genres delay w = (Inr results, w') \<and>
        (\<forall>r \<in> set results.
           (download_success r \<and> error r = None) \<or>
           (\<not> download_success r \<and> error r = Some ''Download failed'')))"
proof (intro conjI impI)
  assume "download_book srv dsk bid dir 3 w = (Inr None, w1)"
  then show "corpus_loop srv dsk dir delay n ((i, k, bid) # rest) acc w =
        corpus_loop srv dsk dir delay n rest
          (acc @ [\<lparr>book_id = bid, key = k, genre = get_genre k, file_path = [], file_size = 0,
                   download_success = False, error = Some ''Download failed''\<rparr>])
          (if i < n \<and> 0 < delay then w1\<lparr>trace := trace w1 @ [DelaySleep delay]\<rparr> else w1)"
    by (rule corpus_loop_failed)
next
  assume "download_book srv dsk bid dir 3 w = (Inr (Some p), w1)"
  then show "\<exists>c. files w1 p = Some c \<and>
           corpus_loop srv dsk dir delay n ((i, k, bid) # rest) acc w =
           corpus_loop srv dsk dir delay n rest
             (acc @ [\<lparr>book_id = bid, key = k, genre = get_genre k, file_path = p,
                      file_size = int (length c), download_success = True, error = None\<rparr>])
             (if i < n \<and> 0 < delay then w1\<lparr>trace := trace w1 @ [DelaySleep delay]\<rparr> else w1)"
    by (rule corpus_loop_succeeded)
next
  from corpus_no_fault [OF assms] obtain results w' where
    run: "download_curated_corpus srv dsk dir max_books genres delay w = (Inr results, w')"
    by blast
  from corpus_results [OF run]
  have "\<forall>r \<in> set results.
           (download_success r \<and> error r = None) \<or>
           (\<not> download_success r \<and> error r = Some ''Download failed'')"
    by blast
  with run show "\<exists>results w'.
        download_curated_corpus srv dsk dir max_books genres delay w = (Inr results, w') \<and>
        (\<forall>r \<in> set results.
           (download_success r \<and> error r = None) \<or>
           (\<not> download_success r \<and> error r = Some ''Download failed''))"
    by blast
qed

text \<open>
  At a concrete input: the first book is stored, the second gets a 404.
\<close>

theorem failures_become_records_witness:
  "corpus_loop (\<lambda>n b. if n = 0 then Body (replicate 600 0) else HTTPError 404) (\<lambda>n. Stored)
     ''d'' 1 2
     [(1, ''hugo_miserables_t1'', 17489), (2, ''hugo_miserables_t2'', 17493)] []
     \<lparr>files = Map.empty, trace = []\<rparr> =
   corpus_loop (\<lambda>n b. if n = 0 then Body (replicate 600 0) else HTTPError 404) (\<lambda>n. Stored)
     ''d'' 1 2
     [(2, ''hugo_miserables_t2'', 17493)]
     [\<lparr>book_id = 17489, key = ''hugo_miserables_t1'', genre = ''litterature_generale'',
       file_path = ''d/pg17489.txt'', file_size = 600, download_success = True, error = None\<rparr>]
     \<lparr>files = [''d/pg17489.txt'' \<mapsto> replicate 600 0],
      trace = [NetRequest 17489, WriteBytes ''d/pg17489.txt'', DelaySleep 1]\<rparr> \<and>
   corpus_loop (\<lambda>n b. if n = 0 then Body (replicate 600 0) else HTTPError 404) (\<lambda>n. Stored)
     ''d'' 1 2
     [(2, ''hugo_miserables_t2'', 17493)]
     [\<lparr>book_id = 17489, key = ''hugo_miserables_t1'', genre = ''litterature_generale'',
       file_path = ''d/pg17489.txt'', file_size = 600, download_success = True, error = None\<rparr>]
     \<lparr>files = [''d/pg17489.txt'' \<mapsto> replicate 600 0],
      trace = [NetRequest 17489, WriteBytes ''d/pg17489.txt'', DelaySleep 1]\<rparr> =
   corpus_loop (\<lambda>n b. if n = 0 then Body (replicate 600 0) else HTTPError 404) (\<lambda>n. Stored)
     ''d'' 1 2
     []
     [\<lparr>book_id = 17489, key = ''hugo_miserables_t1'', genre = ''litterature_generale'',
       file_path = ''d/pg17489.txt'', file_size = 600, download_success = True, error = None\<rparr>,
      \<lparr>book_id = 17493, key = ''hugo_miserables_t2'', genre = ''litterature_generale'',
       file_path = [], file_size = 0, download_success = False,
       error = Some ''Download failed''\<rparr>]
     \<lparr>files = [''d/pg17489.txt'' \<mapsto> replicate 600 0],
      trace = [NetRequest 17489, WriteBytes ''d/pg17489.txt'', DelaySleep 1,
               NetRequest 17493]\<rparr> \<and>
   (\<exists>results w'.
      download_curated_corpus (\<lambda>n b. if n = 0 then Body (replicate 600 0) else HTTPError 404)
        (\<lambda>n. Stored) ''d'' (Some 2) None 1 \<lparr>files = Map.empty, trace = []\<rparr> =
        (Inr results, w') \<and>
      map download_success results = [True, False] \<and>
      map error results = [None, Some ''Download failed''])"
proof -
  let ?srv = "\<lambda>(n :: nat) (b :: int). if n = 0 then Body (replicate 600 0) else HTTPError 404"
  let ?dsk = "\<lambda>n :: nat. Stored"
  let ?p = "''d/pg17489.txt''"
  let ?start = "\<lparr>files = (Map.empty :: string \<rightharpoonup> bytes), trace = []\<rparr>"
  let ?stored = "\<lparr>files = [?p \<mapsto> replicate 600 (0 :: 8 word)],
                  trace = [NetRequest 17489, WriteBytes ?p]\<rparr>"
  let ?paused = "\<lparr>files = [?p \<mapsto> replicate 600 (0 :: 8 word)],
                  trace = [NetRequest 17489, WriteBytes ?p, DelaySleep 1]\<rparr>"
  let ?asked = "\<lparr>files = [?p \<mapsto> replicate 600 (0 :: 8 word)],
                 trace = [NetRequest 17489, WriteBytes ?p, DelaySleep 1, NetRequest 17493]\<rparr>"
  have srv: "\<forall>n b. ?srv n b \<noteq> OtherError" by simp
  have dsk: "\<forall>n. ?dsk n = Stored" by simp
  have got: "download_book ?srv ?dsk 17489 ''d'' 3 ?start = (Inr (Some ?p), ?stored)"
    by (simp add: download_book_def already_exists_def upto_rec1 Let_def book_file_def
        str_int_def str_nat.simps child_def path_parts_def anchor_def)
  have lost: "download_book ?srv ?dsk 17493 ''d'' 3 ?paused = (Inr None, ?asked)"
    by (simp add: download_book_def already_exists_def upto_rec1 Let_def book_file_def
        str_int_def str_nat.simps child_def path_parts_def anchor_def)
  have g1: "get_genre ''hugo_miserables_t1'' = ''litterature_generale''"
    and g2: "get_genre ''hugo_miserables_t2'' = ''litterature_generale''"
    by (simp_all add: get_genre_def GENRES_def)
  from got failures_become_records [OF srv dsk, of 17489 "''d''" ?start ?stored 1 2 1
      "''hugo_miserables_t1''" "[(2, ''hugo_miserables_t2'', 17493)]" "[]" ?p]
  have first: "corpus_loop ?srv ?dsk ''d'' 1 2
     [(1, ''hugo_miserables_t1'', 17489), (2, ''hugo_miserables_t2'', 17493)] [] ?start =
   corpus_loop ?srv ?dsk ''d'' 1 2 [(2, ''hugo_miserables_t2'', 17493)]
     [\<lparr>book_id = 17489, key = ''hugo_miserables_t1'', genre = ''litterature_generale'',
       file_path = ?p, file_size = 600, download_success = True, error = None\<rparr>] ?paused"
    by (auto simp add: g1 simp del: corpus_loop.simps)
  from lost failures_become_records [OF srv dsk, of 17493 "''d''" ?paused ?asked 1 2 2
      "''hugo_miserables_t2''" "[]"
      "[\<lparr>book_id = 17489, key = ''hugo_miserables_t1'', genre = ''litterature_generale'',
         file_path = ?p, file_size = 600, download_success = True, error = None\<rparr>]"]
  have second: "corpus_loop ?srv ?dsk ''d'' 1 2 [(2, ''hugo_miserables_t2'', 17493)]
     [\<lparr>book_id = 17489, key = ''hugo_miserables_t1'', genre = ''litterature_generale'',
       file_path = ?p, file_size = 600, download_success = True, error = None\<rparr>] ?paused =
   corpus_loop ?srv ?dsk ''d'' 1 2 []
     [\<lparr>book_id = 17489, key = ''hugo_miserables_t1'', genre = ''litterature_generale'',
       file_path = ?p, file_size = 600, download_success = True, error = None\<rparr>,
      \<lparr>book_id = 17493, key = ''hugo_miserables_t2'', genre = ''litterature_generale'',
       file_path = [], file_size = 0, download_success = False,
       error = Some ''Download failed''\<rparr>] ?asked"
    by (simp add: g2 del: corpus_loop.simps)
  have third: "\<exists>results w'.
      download_curated_corpus ?srv ?dsk ''d'' (Some 2) None 1 ?start = (Inr results, w') \<and>
      map download_success results = [True, False] \<and>
      map error results = [None, Some ''Download failed'']"
    unfolding run_mixed by simp
  from first second third show ?thesis by (intro conjI)
qed

text \<open>
  The claim as stated fails where it has the error field name the kind of failure: a
  book that is not found (one request) and a book whose retries are exhausted (three
  requests) get the same record, with the same error text.
\<close>

theorem failure_kind_counterexample:
  "\<exists>r1 r2 w1 w2.
     download_curated_corpus (\<lambda>n b. HTTPError 404) (\<lambda>n. Stored) ''d'' (Some 1) None 1
       \<lparr>files = Map.empty, trace = []\<rparr> = (Inr [r1], w1) \<and>
     download_curated_corpus (\<lambda>n b. Body (replicate 50 0)) (\<lambda>n. Stored) ''d'' (Some 1) None 1
       \<lparr>files = Map.empty, trace = []\<rparr> = (Inr [r2], w2) \<and>
     requests (trace w1) = 1 \<and> requests (trace w2) = 3 \<and>
     error r1 = Some ''Download failed'' \<and> error r2 = Some ''Download failed'' \<and> r1 = r2"
  unfolding run_not_found run_undersized by simp

lemma success_length: "success rs = int (length (filter download_success rs))"
  unfolding success_def by (induction rs) simp_all

lemma total_size_succeeded:
  "\<forall>r \<in> set rs. \<not> download_success r \<longrightarrow> file_size r = 0 \<Longrightarrow>
   sum_list (map file_size rs) = sum_list (map file_size (filter download_success rs))"
  by (induction rs) simp_all

text \<open>
  C9. For the outcome list of a run, \<open>success\<close> is the number of outcomes with
  \<open>download_success\<close>, and \<open>total_size\<close>, which the code sums over all outcomes, is
  also the sum over the successful ones, since a failed outcome has size 0.
\<close>

theorem summary_consistent:
  assumes "download_curated_corpus srv dsk dir max_books genres delay w = (Inr results, w')"
  shows "success results = int (length (filter download_success results)) \<and>
         total_size results = sum_list (map file_size (filter download_success results)) \<and>
         total_size results = sum_list (map file_size results)"
proof -
  from corpus_results [OF assms]
  have "\<forall>r \<in> set results. \<not> download_success r \<longrightarrow> file_size r = 0"
    by blast
  from total_size_succeeded [OF this] show ?thesis
    by (simp add: success_length total_size_def)
qed

theorem summary_consistent_witness:
  "success
     [\<lparr>book_id = 17489, key = ''hugo_miserables_t1'', genre = ''litterature_generale'',
       file_path = ''d/pg17489.txt'', file_size = 600, download_success = True, error = None\<rparr>,
      \<lparr>book_id = 17493, key = ''hugo_miserables_t2'', genre = ''litterature_generale'',
       file_path = [], file_size = 0, download_success = False,
       error = Some ''Download failed''\<rparr>] = 1 \<and>
   total_size
     [\<lparr>book_id = 17489, key = ''hugo_miserables_t1'', genre = ''litterature_generale'',
       file_path = ''d/pg17489.txt'', file_size = 600, download_success = True, error = None\<rparr>,
      \<lparr>book_id = 17493, key = ''hugo_miserables_t2'', genre = ''litterature_generale'',
       file_path = [], file_size = 0, download_success = False,
       error = Some ''Download failed''\<rparr>] = 600"
  using summary_consistent [OF run_mixed] by simp

subsection \<open>Backoff\<close>

text \<open>
  The waits of the retry loop from attempt \<open>a\<close> on: after the wait already slept, the
  wait before each further attempt is 0 when the attempt before it got a body (an
  undersized one, or the loop would have ended) and twice the number of the attempt before
  it otherwise.
\<close>

lemma attempts_waits:
  "attempts srv dsk bid p retries [a..retries] w = (r, w') \<Longrightarrow> a \<le> retries \<Longrightarrow>
   \<exists>ev rest. trace w' = trace w @ ev \<and> waits_from slept ev = slept # rest \<and>
     (\<forall>j < length rest.
        rest ! j = (if is_body (srv (requests (trace w) + j) bid) then 0 else 2 * (a + int j)))"
proof (induction "nat (retries - a)" arbitrary: a w slept)
  case 0
  then have a: "a = retries" by simp
  then have l: "[a..retries] = [a]" by simp
  let ?w1 = "w\<lparr>trace := trace w @ [NetRequest bid]\<rparr>"
  from "0.prems"(1) l a
  have "trace w' = trace w @ [NetRequest bid] \<or>
        trace w' = trace w @ [NetRequest bid, WriteBytes p]"
    by (cases "srv (requests (trace w)) bid"; cases "dsk (writes (trace w))")
       (auto simp: Let_def backoff_def split: if_splits)
  then show ?case
    by (elim disjE)
       (rule exI [of _ "[NetRequest bid]"], simp,
        rule exI [of _ "[NetRequest bid, WriteBytes p]"], simp)
next
  case (Suc m)
  then have lt: "a < retries" by simp
  then have l: "[a..retries] = a # [a + 1..retries]" by (simp add: upto_rec1)
  let ?w1 = "w\<lparr>trace := trace w @ [NetRequest bid]\<rparr>"
  let ?w2 = "?w1\<lparr>trace := trace ?w1 @ [BackoffSleep (a * 2)]\<rparr>"
  from Suc.hyps(2) have m: "m = nat (retries - (a + 1))" by simp
  from lt have le: "a + 1 \<le> retries" by simp
  consider
      (stop) "trace w' = trace w @ [NetRequest bid] \<or>
              trace w' = trace w @ [NetRequest bid, WriteBytes p]"
    | (small) "is_body (srv (requests (trace w)) bid)"
        "attempts srv dsk bid p retries [a + 1..retries] ?w1 = (r, w')"
    | (neterr) "\<not> is_body (srv (requests (trace w)) bid)"
        "attempts srv dsk bid p retries [a + 1..retries] ?w2 = (r, w')"
    using Suc.prems(1) l lt
    by (cases "srv (requests (trace w)) bid"; cases "dsk (writes (trace w))")
       (auto simp: Let_def backoff_def split: if_splits)
  then show ?case
  proof cases
    case stop
    then show ?thesis
      by (elim disjE)
         (rule exI [of _ "[NetRequest bid]"], simp,
          rule exI [of _ "[NetRequest bid, WriteBytes p]"], simp)
  next
    case small
    from Suc.hyps(1) [OF m small(2) le, of 0] obtain ev rest where
      ev: "trace w' = trace ?w1 @ ev" "waits_from 0 ev = 0 # rest"
      "\<forall>j < length rest.
         rest ! j =
           (if is_body (srv (requests (trace ?w1) + j) bid) then 0 else 2 * (a + 1 + int j))"
      by blast
    have "trace w' = trace w @ (NetRequest bid # ev)" using ev(1) by simp
    moreover have "waits_from slept (NetRequest bid # ev) = slept # (0 # rest)"
      using ev(2) by simp
    moreover have "\<forall>j < length (0 # rest).
        (0 # rest) ! j =
          (if is_body (srv (requests (trace w) + j) bid) then 0 else 2 * (a + int j))"
    proof (intro allI impI)
      fix j assume j: "j < length (0 # rest)"
      show "(0 # rest) ! j =
              (if is_body (srv (requests (trace w) + j) bid) then 0 else 2 * (a + int j))"
      proof (cases j)
        case 0
        with small(1) show ?thesis by simp
      next
        case (Suc i)
        with j have "i < length rest" by simp
        with ev(3) have "rest ! i =
            (if is_body (srv (requests (trace ?w1) + i) bid) then 0 else 2 * (a + 1 + int i))"
          by blast
        with Suc show ?thesis by simp
      qed
    qed
    ultimately show ?thesis by blast
  next
    case neterr
    from Suc.hyps(1) [OF m neterr(2) le, of "a * 2"] obtain ev rest where
      ev: "trace w' = trace ?w2 @ ev" "waits_from (a * 2) ev = (a * 2) # rest"
      "\<forall>j < length rest.
         rest ! j =
           (if is_body (srv (requests (trace ?w2) + j) bid) then 0 else 2 * (a + 1 + int j))"
      by blast
    have "trace w' = trace w @ (NetRequest bid # BackoffSleep (a * 2) # ev)"
      using ev(1) by simp
    moreover have "waits_from slept (NetRequest bid # BackoffSleep (a * 2) # ev) =
                   slept # (a * 2 # rest)"
      using ev(2) by simp
    moreover have "\<forall>j < length (a * 2 # rest).
        (a * 2 # rest) ! j =
          (if is_body (srv (requests (trace w) + j) bid) then 0 else 2 * (a + int j))"
    proof (intro allI impI)
      fix j assume j: "j < length (a * 2 # rest)"
      show "(a * 2 # rest) ! j =
              (if is_body (srv (requests (trace w) + j) bid) then 0 else 2 * (a + int j))"
      proof (cases j)
        case 0
        with neterr(1) show ?thesis by simp
      next
        case (Suc i)
        with j have "i < length rest" by simp
        with ev(3) have "rest ! i =
            (if is_body (srv (requests (trace ?w2) + i) bid) then 0 else 2 * (a + 1 + int i))"
          by blast
        with Suc show ?thesis by simp
      qed
    qed
    ultimately show ?thesis by blast
  qed
qed

lemma run_refused:
  "download_book (\<lambda>n b. URLError) (\<lambda>n. Stored) 7 ''d'' 4 \<lparr>files = Map.empty, trace = []\<rparr> =
     (Inr None,
      \<lparr>files = Map.empty,
       trace = [NetRequest 7, BackoffSleep 2, NetRequest 7, BackoffSleep 4, NetRequest 7,
                BackoffSleep 6, NetRequest 7]\<rparr>)"
  by (simp add: download_book_def already_exists_def upto_rec1 Let_def backoff_def)

text \<open>
  C5 (as amended). Within one \<open>download_book\<close> call, write \<open>waits ev ! k\<close> for the wait
  slept before attempt \<open>k + 1\<close>; the answer to attempt \<open>k + 1\<close> is the one to request
  number \<open>requests (trace w) + k\<close>. For every pair of consecutive attempts \<open>k + 1\<close> and
  \<open>k + 2\<close> of which the first failed with a network error (a timeout, a connection
  failure, an HTTP error other than 404; not an undersized body), the wait before attempt
  \<open>k + 2\<close> is strictly greater than the wait before attempt \<open>k + 1\<close>. It is
  \<open>2 * (k + 1)\<close> seconds, and no wait follows an attempt that got an undersized body.
\<close>

theorem backoff_waits_increase:
  assumes "download_book srv dsk bid dir retries w = (r, w')"
  shows "\<exists>ev. trace w' = trace w @ ev \<and>
     (\<forall>k. Suc k < length (waits ev) \<and> \<not> is_body (srv (requests (trace w) + k) bid) \<longrightarrow>
        waits ev ! k < waits ev ! Suc k) \<and>
     (\<forall>k. Suc k < length (waits ev) \<longrightarrow>
        waits ev ! Suc k =
          (if is_body (srv (requests (trace w) + k) bid) then 0 else 2 * (int k + 1)))"
proof (cases "already_exists w (book_file dir bid) \<or> retries < 1")
  case True
  with assms have "w' = w"
    by (auto simp: download_book_def Let_def split: if_splits)
  then have "trace w' = trace w @ []" by simp
  moreover have "\<forall>k. Suc k < length (waits []) \<and>
        \<not> is_body (srv (requests (trace w) + k) bid) \<longrightarrow> waits [] ! k < waits [] ! Suc k"
    by (simp add: waits_def)
  moreover have "\<forall>k. Suc k < length (waits []) \<longrightarrow>
        waits [] ! Suc k =
          (if is_body (srv (requests (trace w) + k) bid) then 0 else 2 * (int k + 1))"
    by (simp add: waits_def)
  ultimately show ?thesis by blast
next
  case False
  with assms have "attempts srv dsk bid (book_file dir bid) retries [1..retries] w = (r, w')"
    and "1 \<le> retries"
    by (simp_all add: download_book_def Let_def)
  from attempts_waits [OF this, of 0] obtain ev rest where
    ev: "trace w' = trace w @ ev" "waits ev = 0 # rest"
    "\<forall>j < length rest.
       rest ! j = (if is_body (srv (requests (trace w) + j) bid) then 0 else 2 * (1 + int j))"
    unfolding waits_def by blast
  have each: "\<forall>k. Suc k < length (waits ev) \<longrightarrow>
        waits ev ! Suc k =
          (if is_body (srv (requests (trace w) + k) bid) then 0 else 2 * (int k + 1))"
    using ev(2,3) by (simp add: add.commute)
  have "\<forall>k. Suc k < length (waits ev) \<and> \<not> is_body (srv (requests (trace w) + k) bid) \<longrightarrow>
        waits ev ! k < waits ev ! Suc k"
  proof (intro allI impI)
    fix k
    assume k: "Suc k < length (waits ev) \<and> \<not> is_body (srv (requests (trace w) + k) bid)"
    with each have after: "waits ev ! Suc k = 2 * (int k + 1)" by simp
    show "waits ev ! k < waits ev ! Suc k"
    proof (cases k)
      case 0
      with after ev(2) show ?thesis by simp
    next
      case (Suc i)
      with k have "Suc i < length (waits ev)" by simp
      with each have "waits ev ! Suc i =
          (if is_body (srv (requests (trace w) + i) bid) then 0 else 2 * (int i + 1))"
        by blast
      then have "waits ev ! Suc i \<le> 2 * (int i + 1)" by simp
      with after Suc show ?thesis by simp
    qed
  qed
  with ev(1) each show ?thesis by blast
qed

text \<open>
  At a concrete input: four attempts that all fail to connect; the waits before attempts
  1 to 4 are 0, 2, 4 and 6 seconds, each greater than the one before, up to the last.
\<close>

theorem backoff_waits_increase_witness:
  "waits [NetRequest 7, BackoffSleep 2, NetRequest 7, BackoffSleep 4, NetRequest 7,
          BackoffSleep 6, NetRequest 7] ! 0 <
   waits [NetRequest 7, BackoffSleep 2, NetRequest 7, BackoffSleep 4, NetRequest 7,
          BackoffSleep 6, NetRequest 7] ! 1 \<and>
   waits [NetRequest 7, BackoffSleep 2, NetRequest 7, BackoffSleep 4, NetRequest 7,
          BackoffSleep 6, NetRequest 7] ! 1 <
   waits [NetRequest 7, BackoffSleep 2, NetRequest 7, BackoffSleep 4, NetRequest 7,
          BackoffSleep 6, NetRequest 7] ! 2 \<and>
   waits [NetRequest 7, BackoffSleep 2, NetRequest 7, BackoffSleep 4, NetRequest 7,
          BackoffSleep 6, NetRequest 7] ! 2 <
   waits [NetRequest 7, BackoffSleep 2, NetRequest 7, BackoffSleep 4, NetRequest 7,
          BackoffSleep 6, NetRequest 7] ! 3"
proof -
  let ?tr = "[NetRequest 7, BackoffSleep 2, NetRequest 7, BackoffSleep 4, NetRequest 7,
              BackoffSleep 6, NetRequest 7]"
  from backoff_waits_increase [OF run_refused] obtain ev where
    ev: "?tr = ev"
    and inc: "\<forall>k. Suc k < length (waits ev) \<and>
          \<not> is_body ((\<lambda>(n :: nat) (b :: int). URLError) (requests [] + k) 7) \<longrightarrow>
        waits ev ! k < waits ev ! Suc k"
    by auto
  have len: "length (waits ?tr) = 4"
    by (simp add: waits_def)
  from inc [rule_format, of 0] inc [rule_format, of 1] inc [rule_format, of 2] len ev
  show ?thesis by (simp add: numeral_2_eq_2 numeral_3_eq_3)
qed

text \<open>
  The claim as stated counts the undersized body among the failures that are followed
  by a growing wait. It is not: \<open>continue\<close> skips the sleep. After a timeout and two
  undersized bodies the waits before the three attempts are 0, 2 and 0 seconds, so the
  wait before attempt 3 is not longer than the wait before attempt 2.
\<close>

theorem undersized_no_wait_counterexample:
  "download_book (\<lambda>n b. if n = 0 then TimeoutError else Body (replicate 50 0)) (\<lambda>n. Stored)
     7 ''d'' 3 \<lparr>files = Map.empty, trace = []\<rparr> =
     (Inr None,
      \<lparr>files = Map.empty,
       trace = [NetRequest 7, BackoffSleep 2, NetRequest 7, NetRequest 7]\<rparr>) \<and>
   waits [NetRequest 7, BackoffSleep 2, NetRequest 7, NetRequest 7] = [0, 2, 0] \<and>
   \<not> waits [NetRequest 7, BackoffSleep 2, NetRequest 7, NetRequest 7] ! 1 <
     waits [NetRequest 7, BackoffSleep 2, NetRequest 7, NetRequest 7] ! 2"
  by (simp add: download_book_def already_exists_def upto_rec1 Let_def backoff_def waits_def)

end
